theory Spec2Isabelle
  imports Complex_Main "HOL-Library.Word"
begin

section \<open>JavaScript numbers\<close>

text \<open>
  The front end computes with JavaScript \<^verbatim>\<open>number\<close>s, that is IEEE 754 binary64 values.
  A finite value is kept as the rational it denotes; every arithmetic result is rounded
  to the nearest binary64 value (ties to even), overflowing to an infinity.  The two
  zeros are identified: none of the functions below divides by a computed zero or
  prints a zero with its sign, so \<^verbatim>\<open>-0\<close> is not observable in them.
\<close>

datatype number = Fin rat | PosInf | NegInf | NaN

function bitlength :: "int \<Rightarrow> nat" where
  "bitlength n = (if n \<le> 0 then 0 else Suc (bitlength (n div 2)))"
  by pat_completeness auto
termination
  by (relation "measure nat") auto

declare bitlength.simps [simp del]

definition pow2 :: "int \<Rightarrow> rat" where
  "pow2 e = (if 0 \<le> e then 2 ^ nat e else 1 / 2 ^ nat (- e))"

text \<open>The binary exponent of a positive rational: \<open>pow2 e \<le> a < pow2 (e + 1)\<close>.\<close>

definition exponent_of :: "rat \<Rightarrow> int" where
  "exponent_of a =
     (if 1 \<le> a then int (bitlength \<lfloor>a\<rfloor>) - 1
      else - int (bitlength (\<lceil>1 / a\<rceil> - 1)))"

definition round_half_even :: "rat \<Rightarrow> int" where
  "round_half_even x =
     (let f = \<lfloor>x\<rfloor>; d = x - of_int f
      in if d < 1 / 2 then f
         else if 1 / 2 < d then f + 1
         else if even f then f else f + 1)"

text \<open>
  Rounding to binary64: 53 significant bits, the least exponent of a normal value is
  \<open>-1022\<close> (below it the spacing stays \<open>pow2 (-1074)\<close>).  The result is an infinity
  when its magnitude is \<open>pow2 1024\<close> or more: when \<open>a\<close> itself is that large, or when
  its exponent is \<open>1023\<close> and the significand rounds up to \<open>2^53\<close>.
\<close>

definition round64 :: "rat \<Rightarrow> number" where
  "round64 x =
     (if x = 0 then Fin 0
      else let a = \<bar>x\<bar>;
               e = exponent_of a;
               q = max e (- 1022) - 52;
               m = round_half_even (a / pow2 q)
           in if 1024 \<le> e \<or> (e = 1023 \<and> m = 9007199254740992)
              then (if 0 < x then PosInf else NegInf)
              else Fin (if 0 < x then of_int m * pow2 q else - (of_int m * pow2 q)))"

definition isFinite :: "number \<Rightarrow> bool" where
  "isFinite x = (case x of Fin _ \<Rightarrow> True | _ \<Rightarrow> False)"

definition num_sign :: "number \<Rightarrow> int" where
  "num_sign x =
     (case x of Fin a \<Rightarrow> (if a = 0 then 0 else if 0 < a then 1 else - 1)
      | PosInf \<Rightarrow> 1 | NegInf \<Rightarrow> - 1 | NaN \<Rightarrow> 0)"

definition num_neg :: "number \<Rightarrow> number" where
  "num_neg x = (case x of Fin a \<Rightarrow> Fin (- a) | PosInf \<Rightarrow> NegInf | NegInf \<Rightarrow> PosInf | NaN \<Rightarrow> NaN)"

text \<open>\<^verbatim>\<open>a + b\<close>\<close>

fun num_add :: "number \<Rightarrow> number \<Rightarrow> number" where
  "num_add NaN _ = NaN"
| "num_add _ NaN = NaN"
| "num_add (Fin a) (Fin b) = round64 (a + b)"
| "num_add PosInf NegInf = NaN"
| "num_add NegInf PosInf = NaN"
| "num_add PosInf _ = PosInf"
| "num_add NegInf _ = NegInf"
| "num_add (Fin _) b = b"

text \<open>\<^verbatim>\<open>a - b\<close>\<close>

definition num_sub :: "number \<Rightarrow> number \<Rightarrow> number" where
  "num_sub a b = num_add a (num_neg b)"

text \<open>\<^verbatim>\<open>a * b\<close>: an infinity times zero is \<^verbatim>\<open>NaN\<close>.\<close>

fun num_mul :: "number \<Rightarrow> number \<Rightarrow> number" where
  "num_mul NaN _ = NaN"
| "num_mul _ NaN = NaN"
| "num_mul (Fin a) (Fin b) = round64 (a * b)"
| "num_mul x y =
     (let s = num_sign x * num_sign y
      in if s = 0 then NaN else if 0 < s then PosInf else NegInf)"

text \<open>\<^verbatim>\<open>a / b\<close>; a zero divisor counts as \<^verbatim>\<open>+0\<close>.\<close>

fun num_div :: "number \<Rightarrow> number \<Rightarrow> number" where
  "num_div NaN _ = NaN"
| "num_div _ NaN = NaN"
| "num_div (Fin a) (Fin b) =
     (if b = 0 then (if a = 0 then NaN else if 0 < a then PosInf else NegInf)
      else round64 (a / b))"
| "num_div (Fin _) _ = Fin 0"
| "num_div x (Fin b) = (if 0 \<le> b then x else num_neg x)"
| "num_div _ _ = NaN"

text \<open>\<^verbatim>\<open>a < b\<close> and \<^verbatim>\<open>a > b\<close>: false as soon as one side is \<^verbatim>\<open>NaN\<close>.\<close>

fun num_lt :: "number \<Rightarrow> number \<Rightarrow> bool" where
  "num_lt NaN _ = False"
| "num_lt _ NaN = False"
| "num_lt (Fin a) (Fin b) = (a < b)"
| "num_lt _ NegInf = False"
| "num_lt PosInf _ = False"
| "num_lt _ _ = True"

definition num_gt :: "number \<Rightarrow> number \<Rightarrow> bool" where
  "num_gt a b = num_lt b a"

text \<open>\<^verbatim>\<open>Math.max(a, b)\<close>: \<^verbatim>\<open>NaN\<close> as soon as one argument is.\<close>

definition Math_max :: "number \<Rightarrow> number \<Rightarrow> number" where
  "Math_max a b = (if a = NaN \<or> b = NaN then NaN else if num_lt a b then b else a)"

subsection \<open>Printing\<close>

definition digit_char :: "int \<Rightarrow> char" where
  "digit_char d = ''0123456789'' ! nat d"

function decimal :: "int \<Rightarrow> string" where
  "decimal n = (if n \<le> 0 then [] else decimal (n div 10) @ [digit_char (n mod 10)])"
  by pat_completeness auto
termination
  by (relation "measure nat") auto

declare decimal.simps [simp del]

text \<open>
  \<^verbatim>\<open>Number::toString\<close> on a finite value \<open>a \<ge> 10^21\<close>, the only finite range in which
  \<^verbatim>\<open>toFixed\<close> calls it.  ECMAScript takes integers \<open>n\<close>, \<open>k\<close>, \<open>s\<close> with \<open>k\<close> least such
  that \<open>s\<close> has \<open>k\<close> digits and \<open>s * 10^(n - k)\<close> rounds to \<open>a\<close> (the \<open>s\<close> nearest \<open>a\<close> if
  several do), and prints them in exponent notation, since \<open>n > 21\<close>.  A binary64 value
  is found with \<open>k \<le> 17\<close>; \<open>shortest_digits\<close> stops at \<open>k = 21\<close>.
\<close>

definition digit_candidates :: "rat \<Rightarrow> nat \<Rightarrow> nat \<Rightarrow> (int \<times> nat) list" where
  "digit_candidates a k n =
     (let u = 10 ^ (n - k); s0 = \<lfloor>a / u\<rfloor>
      in map (\<lambda>s. (s, n))
           (filter (\<lambda>s. 10 ^ (k - 1) \<le> s \<and> s < 10 ^ k \<and> round64 (of_int s * u) = Fin a)
              [s0, s0 + 1]))"

definition nearer :: "rat \<Rightarrow> nat \<Rightarrow> int \<times> nat \<Rightarrow> int \<times> nat \<Rightarrow> int \<times> nat" where
  "nearer a k c d =
     (let dc = \<bar>of_int (fst c) * 10 ^ (snd c - k) - a\<bar>;
          dd = \<bar>of_int (fst d) * 10 ^ (snd d - k) - a\<bar>
      in if dd < dc \<or> (dd = dc \<and> even (fst d) \<and> odd (fst c)) then d else c)"

fun shortest_digits :: "rat \<Rightarrow> nat \<Rightarrow> nat \<Rightarrow> nat \<Rightarrow> int \<times> nat \<times> nat" where
  "shortest_digits a n0 k 0 = (\<lfloor>a / 10 ^ (n0 - k)\<rfloor>, k, n0)"
| "shortest_digits a n0 k (Suc fuel) =
     (case digit_candidates a k n0 @ digit_candidates a k (Suc n0) of
        [] \<Rightarrow> shortest_digits a n0 (Suc k) fuel
      | c # cs \<Rightarrow> (let b = foldl (nearer a k) c cs in (fst b, k, snd b)))"

definition toString_exp :: "rat \<Rightarrow> string" where
  "toString_exp a =
     (case shortest_digits a (length (decimal \<lfloor>a\<rfloor>)) 1 20 of
        (s, k, n) \<Rightarrow>
          (let ds = decimal s; e = decimal (int n - 1)
           in if k = 1 then ds @ ''e+'' @ e
              else take 1 ds @ ''.'' @ drop 1 ds @ ''e+'' @ e))"

text \<open>
  \<^verbatim>\<open>Number.prototype.toFixed(f)\<close> for \<open>0 \<le> f \<le> 100\<close> (outside it JavaScript throws a
  RangeError; the source only calls \<^verbatim>\<open>toFixed(2)\<close>): the integer \<open>n\<close> nearest to
  \<open>a * 10^f\<close>, the larger one on a tie, printed with \<open>f\<close> digits after the point.
\<close>

definition toFixed :: "nat \<Rightarrow> number \<Rightarrow> string" where
  "toFixed f x =
     (case x of
        NaN \<Rightarrow> ''NaN''
      | PosInf \<Rightarrow> ''Infinity''
      | NegInf \<Rightarrow> ''-Infinity''
      | Fin r \<Rightarrow>
          (let s = (if r < 0 then ''-'' else ''''); a = \<bar>r\<bar>
           in if 10 ^ 21 \<le> a then s @ toString_exp a
              else let n = \<lfloor>a * 10 ^ f + 1 / 2\<rfloor>;
                       m = (if n = 0 then ''0'' else decimal n);
                       m' = (if f \<noteq> 0 \<and> length m \<le> f
                             then replicate (f + 1 - length m) (CHR ''0'') @ m else m)
                   in if f = 0 then s @ m'
                      else s @ take (length m' - f) m' @ ''.'' @ drop (length m' - f) m'))"

section \<open>Two decimal places\<close>

text \<open>
  What "formatted to two decimal places" says of a rational, for comparison with
  \<^verbatim>\<open>toFixed(2)\<close>: the value rounded to the nearest hundredth (a half away from zero),
  written as a sign if it is negative, the whole part, a point, and exactly two digits.
\<close>

definition whole_part :: "int \<Rightarrow> string" where
  "whole_part n = (if n = 0 then ''0'' else decimal n)"

definition two_decimals :: "rat \<Rightarrow> string" where
  "two_decimals r =
     (let h = \<lfloor>\<bar>r\<bar> * 100 + 1 / 2\<rfloor>
      in (if r < 0 then ''-'' else '''') @ whole_part (h div 100) @ ''.'' @
         [digit_char (h div 10 mod 10), digit_char (h mod 10)])"

section \<open>Values that may be absent\<close>

text \<open>
  An optional field of a response is \<^verbatim>\<open>undefined\<close> when the key is missing, \<^verbatim>\<open>null\<close>
  when the back end sent null, or a value.  \<^verbatim>\<open>a ?? b\<close> is \<open>b\<close> exactly when \<open>a\<close> is one
  of the first two, and \<^verbatim>\<open>a != null\<close> is false exactly then.
\<close>

datatype 'a nullable = Undefined | Null | Defined 'a

fun nullish :: "'a nullable \<Rightarrow> 'a nullable \<Rightarrow> 'a nullable" where
  "nullish (Defined v) _ = Defined v"
| "nullish _ b = b"

fun nullish_or :: "'a nullable \<Rightarrow> 'a \<Rightarrow> 'a" where
  "nullish_or (Defined v) _ = v"
| "nullish_or _ d = d"

text \<open>A field of an untyped response, for the \<^verbatim>\<open>typeof x === 'number'\<close> test.\<close>

datatype jsval = JUndefined | JNull | JNumber number | JString string

fun nullish_val :: "jsval \<Rightarrow> jsval \<Rightarrow> jsval" where
  "nullish_val JUndefined b = b"
| "nullish_val JNull b = b"
| "nullish_val a _ = a"

section \<open>lending/utils.ts\<close>

definition formatPct :: "number nullable \<Rightarrow> string" where
  "formatPct v =
     (let n = (case v of Defined x \<Rightarrow> x | _ \<Rightarrow> Fin 0)
      in if \<not> isFinite n then ''0.00''
         else toFixed 2 (if num_lt n (Fin 1) then num_mul n (Fin 100) else n))"

record priced =
  price :: "number nullable"
  priceUsd :: "number nullable"

definition getPrice :: "'a priced_scheme \<Rightarrow> number" where
  "getPrice p = nullish_or (nullish (price p) (priceUsd p)) (Fin 0)"

record market = priced +
  totalSupplyUsd :: "number nullable"
  total_supply_usd :: "number nullable"
  totalSupply :: "number nullable"
  totalSupplyUnderlying :: "number nullable"

definition getMarketSupplyUsd :: "'a market_scheme \<Rightarrow> number" where
  "getMarketSupplyUsd m =
     (case nullish (totalSupplyUsd m) (total_supply_usd m) of
        Defined usd \<Rightarrow>
          (if isFinite usd then usd
           else num_mul (nullish_or (nullish (totalSupply m) (totalSupplyUnderlying m)) (Fin 0))
                  (getPrice m))
      | _ \<Rightarrow>
          num_mul (nullish_or (nullish (totalSupply m) (totalSupplyUnderlying m)) (Fin 0))
            (getPrice m))"

definition formatTvl :: "number \<Rightarrow> string" where
  "formatTvl usd =
     (if \<not> isFinite usd \<or> num_lt usd (Fin 0) then ''$0.00M''
      else ''$'' @ toFixed 2 (num_div usd (Fin 1000000)) @ ''M'')"

section \<open>lending/services/api.ts\<close>

text \<open>
  A position as the back end sends it: the balances in camelCase or in snake_case, the
  price as \<^verbatim>\<open>price\<close> or \<^verbatim>\<open>priceUsd\<close>.  The other fields of a position (its market, its
  symbol), which the spread \<^verbatim>\<open>...pos\<close> carries over untouched, are left out; so are
  those of the response beside the reported liquidity.
\<close>

record position = priced +
  supplyUnderlying :: "number nullable"
  supply_underlying :: "number nullable"
  borrowBalance :: "number nullable"
  borrow_balance :: "number nullable"
  collateralFactor :: "number nullable"

record account_response =
  positions :: "position list nullable"
  liquidityUsd :: jsval
  liquidity :: jsval

record account_data = account_response +
  totalSupplied :: number
  totalBorrowed :: number
  borrowLimit :: number
  availableToBorrow :: number

definition normalize :: "position \<Rightarrow> position" where
  "normalize pos = pos
     \<lparr>supplyUnderlying :=
        Defined (nullish_or (nullish (supplyUnderlying pos) (supply_underlying pos)) (Fin 0)),
      borrowBalance :=
        Defined (nullish_or (nullish (borrowBalance pos) (borrow_balance pos)) (Fin 0))\<rparr>"

definition pos_price :: "position \<Rightarrow> number" where
  "pos_price pos = nullish_or (nullish (price pos) (priceUsd pos)) (Fin 0)"

definition positive_number :: "jsval \<Rightarrow> bool" where
  "positive_number v = (case v of JNumber x \<Rightarrow> num_gt x (Fin 0) | _ \<Rightarrow> False)"

definition number_of :: "jsval \<Rightarrow> number" where
  "number_of v = (case v of JNumber x \<Rightarrow> x | _ \<Rightarrow> NaN)"

text \<open>
  \<^verbatim>\<open>getAccount\<close> after the response has arrived: the request itself and the checksum of
  the address are outside the model.  \<^verbatim>\<open>reduce\<close> is a left fold from \<open>0\<close>, and the
  result is the response (\<^verbatim>\<open>...data\<close>) with the positions replaced and the four figures
  added.
\<close>

definition getAccount :: "account_response \<Rightarrow> account_data" where
  "getAccount data =
     (let ps = map normalize (case positions data of Defined l \<Rightarrow> l | _ \<Rightarrow> []);
          supplied = foldl (\<lambda>sum pos.
              num_add sum (num_mul (nullish_or (supplyUnderlying pos) (Fin 0)) (pos_price pos)))
            (Fin 0) ps;
          borrowed = foldl (\<lambda>sum pos.
              num_add sum (num_mul (nullish_or (borrowBalance pos) (Fin 0)) (pos_price pos)))
            (Fin 0) ps;
          borrowLimitFromPositions = foldl (\<lambda>sum pos.
              num_add sum
                (num_mul (num_mul (nullish_or (supplyUnderlying pos) (Fin 0)) (pos_price pos))
                   (nullish_or (collateralFactor pos) (Fin 0))))
            (Fin 0) ps;
          liq = nullish_val (liquidityUsd data) (liquidity data);
          limit = (if positive_number liq then num_add borrowed (number_of liq)
                   else borrowLimitFromPositions);
          available = (if positive_number liq then number_of liq
                       else Math_max (Fin 0) (num_sub limit borrowed))
      in \<lparr>positions = Defined ps, liquidityUsd = liquidityUsd data, liquidity = liquidity data,
          totalSupplied = supplied, totalBorrowed = borrowed,
          borrowLimit = limit, availableToBorrow = available\<rparr>)"

section \<open>The account figures as sums over the positions\<close>

text \<open>
  The positions of a response (\<^verbatim>\<open>data.positions || []\<close>), the liquidity it reports
  (\<^verbatim>\<open>data.liquidityUsd ?? data.liquidity\<close>), and the balances, price and collateral
  factor of a position as sent, each 0 when missing.
\<close>

definition sent_positions :: "account_response \<Rightarrow> position list" where
  "sent_positions data = (case positions data of Defined l \<Rightarrow> l | _ \<Rightarrow> [])"

definition reported_liquidity :: "account_response \<Rightarrow> jsval" where
  "reported_liquidity data = nullish_val (liquidityUsd data) (liquidity data)"

definition supply_of :: "position \<Rightarrow> number" where
  "supply_of p = nullish_or (nullish (supplyUnderlying p) (supply_underlying p)) (Fin 0)"

definition borrow_of :: "position \<Rightarrow> number" where
  "borrow_of p = nullish_or (nullish (borrowBalance p) (borrow_balance p)) (Fin 0)"

definition factor_of :: "position \<Rightarrow> number" where
  "factor_of p = nullish_or (collateralFactor p) (Fin 0)"

text \<open>A sum over the positions, added one position after the other from 0.\<close>

definition position_sum :: "(position \<Rightarrow> number) \<Rightarrow> position list \<Rightarrow> number" where
  "position_sum f ps = foldl (\<lambda>s p. num_add s (f p)) (Fin 0) ps"

text \<open>
  The two sums of the claim: supply times price times collateral factor, and borrow
  balance times price.
\<close>

definition sum_borrowLimit :: "position list \<Rightarrow> number" where
  "sum_borrowLimit ps =
     position_sum (\<lambda>p. num_mul (num_mul (supply_of p) (pos_price p)) (factor_of p)) ps"

definition sum_totalBorrowedUsd :: "position list \<Rightarrow> number" where
  "sum_totalBorrowedUsd ps = position_sum (\<lambda>p. num_mul (borrow_of p) (pos_price p)) ps"

definition sum_totalSuppliedUsd :: "position list \<Rightarrow> number" where
  "sum_totalSuppliedUsd ps = position_sum (\<lambda>p. num_mul (supply_of p) (pos_price p)) ps"

text \<open>A position with an explicit price 0 where it had none.\<close>

definition zero_missing_price :: "position \<Rightarrow> position" where
  "zero_missing_price p =
     (case nullish (price p) (priceUsd p) of
        Defined _ \<Rightarrow> p
      | _ \<Rightarrow> p\<lparr>price := Defined (Fin 0)\<rparr>)"

definition figures :: "account_data \<Rightarrow> number \<times> number \<times> number \<times> number" where
  "figures a = (totalSupplied a, totalBorrowed a, borrowLimit a, availableToBorrow a)"

section \<open>The indexer back end\<close>

text \<open>
  The back end (event store, indexer loop, state projector) belongs to the repository,
  but among the source files there is only its README.  The definitions of this section
  are therefore written from the specification, sections 3, 4.1 to 4.4, 6 and 7.
\<close>

text \<open>Modelled from the spec: block numbers are \<^verbatim>\<open>uint64\<close> (section 4.1); the back end's sources are missing.\<close>

type_synonym block = "64 word"

text \<open>Modelled from the spec: the error taxonomy of section 7; the back end's sources are missing.\<close>

datatype fault = RpcUnavailable | RangeTooLarge | DataIntegrityFault | InvalidInput | NonMonotonic

text \<open>Modelled from the spec: the \<^verbatim>\<open>Event\<close> of section 3; the event store's sources are missing.\<close>

record event =
  contractAddress :: string
  eventName :: string
  blockNumber :: block
  transactionHash :: string
  logIndex :: nat
  decodedArgs :: "(string \<times> string) list"
  timestamp :: nat

text \<open>Modelled from the spec: an event is identified by \<open>(transactionHash, logIndex)\<close> (section 3).\<close>

definition event_key :: "event \<Rightarrow> string \<times> nat" where
  "event_key e = (transactionHash e, logIndex e)"

text \<open>
  Modelled from the spec: the persisted state of section 6, an events table and a single
  checkpoint, which does not exist before the first run; the event store's sources are
  missing.
\<close>

record store =
  events :: "event list"
  checkpoint :: "block option"

text \<open>
  Modelled from the spec: \<^verbatim>\<open>insert\<close> of section 4.3 for one event; an event whose
  identity is stored already is skipped, silently.
\<close>

definition insert_event :: "event \<Rightarrow> event list \<Rightarrow> event list" where
  "insert_event e es = (if event_key e \<in> set (map event_key es) then es else es @ [e])"

text \<open>Modelled from the spec: \<^verbatim>\<open>insert(events)\<close> of section 4.3, event after event; it returns no error.\<close>

definition insert_events :: "event list \<Rightarrow> store \<Rightarrow> store" where
  "insert_events new st = st\<lparr>events := foldl (\<lambda>es e. insert_event e es) (events st) new\<rparr>"

text \<open>Modelled from the spec: \<^verbatim>\<open>getCheckpoint\<close> of section 4.3.\<close>

definition getCheckpoint :: "store \<Rightarrow> block option" where
  "getCheckpoint st = checkpoint st"

text \<open>
  Modelled from the spec: \<^verbatim>\<open>setCheckpoint\<close> of section 4.3, which fails with
  \<open>NonMonotonic\<close> if the new value is less than the current one.
\<close>

definition setCheckpoint :: "block \<Rightarrow> store \<Rightarrow> fault + store" where
  "setCheckpoint v st =
     (case checkpoint st of
        None \<Rightarrow> Inr (st\<lparr>checkpoint := Some v\<rparr>)
      | Some c \<Rightarrow> if v < c then Inl NonMonotonic else Inr (st\<lparr>checkpoint := Some v\<rparr>))"

text \<open>
  Modelled from the spec: the chain client of section 4.1 as one cycle sees it; it
  answers or fails with \<open>RpcUnavailable\<close> or \<open>RangeTooLarge\<close>.  A log is given decoded,
  \<open>None\<close> when its topic matches no known event.
\<close>

record chain =
  latestBlockNumber :: "fault + block"
  getLogs :: "block \<Rightarrow> block \<Rightarrow> fault + event option list"

text \<open>Modelled from the spec: the batch size and the look-back of sections 4.2 and 6.\<close>

record config =
  batchSize :: nat
  initialLookback :: block

text \<open>
  Modelled from the spec: the defaults, which the spec leaves to the documentation; the
  README gives \<^verbatim>\<open>BATCH_SIZE\<close> 1000 and the start at \<^verbatim>\<open>latest-2000\<close>.
\<close>

definition default_config :: config where
  "default_config = \<lparr>batchSize = 1000, initialLookback = 2000\<rparr>"

text \<open>
  Modelled from the spec: the first run of section 4.2, \<^verbatim>\<open>latestBlockNumber() -
  initialLookback\<close> clamped to 0.  The subtraction of \<^verbatim>\<open>uint64\<close> would wrap, so the
  clamp is a comparison.
\<close>

definition initial_checkpoint :: "block \<Rightarrow> block \<Rightarrow> block" where
  "initial_checkpoint latest lookback = (if latest < lookback then 0 else latest - lookback)"

text \<open>Modelled from the spec: only a run with no existing checkpoint initialises it (section 4.2).\<close>

definition ensure_checkpoint :: "config \<Rightarrow> block \<Rightarrow> store \<Rightarrow> store" where
  "ensure_checkpoint cfg latest st =
     (case checkpoint st of
        None \<Rightarrow> st\<lparr>checkpoint := Some (initial_checkpoint latest (initialLookback cfg))\<rparr>
      | Some _ \<Rightarrow> st)"

text \<open>Modelled from the spec: step 3 of a cycle (section 4.2), logs of unknown signature are dropped.\<close>

definition decoded :: "event option list \<Rightarrow> event list" where
  "decoded raw = List.map_filter (\<lambda>l. l) raw"

text \<open>
  Modelled from the spec: step 4 of a cycle, all events of the range in one write and
  only then the checkpoint.
\<close>

definition persist :: "block \<Rightarrow> event list \<Rightarrow> store \<Rightarrow> fault + store" where
  "persist b es st = setCheckpoint b (insert_events es st)"

text \<open>
  Modelled from the spec: steps 2 to 4 of a cycle for the block range from \<open>a\<close> to \<open>b\<close>;
  a failure of the chain client leaves the store as it was.
\<close>

definition index_range :: "chain \<Rightarrow> block \<Rightarrow> block \<Rightarrow> store \<Rightarrow> fault + store" where
  "index_range ch a b st =
     (case getLogs ch a b of
        Inl f \<Rightarrow> Inl f
      | Inr raw \<Rightarrow> persist b (decoded raw) st)"

text \<open>
  Modelled from the spec: steps 1 and 5 of a cycle.  The target is \<open>min(latest, C +
  batchSize)\<close>; nothing happens when it is not beyond \<open>C\<close>.  \<open>RangeTooLarge\<close> halves the
  batch and retries at once, down to 1 block; any other failure leaves the store as it
  was, for the next cycle.
\<close>

function fetch_shrinking :: "chain \<Rightarrow> block \<Rightarrow> block \<Rightarrow> nat \<Rightarrow> store \<Rightarrow> store" where
  "fetch_shrinking ch latest c batch st =
     (let t = min latest (c + of_nat batch)
      in if t \<le> c then st
         else case index_range ch (c + 1) t st of
                Inr st' \<Rightarrow> st'
              | Inl RangeTooLarge \<Rightarrow>
                  (if batch \<le> 1 then st else fetch_shrinking ch latest c (batch div 2) st)
              | Inl _ \<Rightarrow> st)"
  by pat_completeness auto
termination
  by (relation "measure (\<lambda>(ch, latest, c, batch, st). batch)") auto

declare fetch_shrinking.simps [simp del]

text \<open>
  Modelled from the spec: one cycle of the indexer loop (section 4.2); when the latest
  block number cannot be read, nothing changes.
\<close>

definition cycle :: "config \<Rightarrow> chain \<Rightarrow> store \<Rightarrow> store" where
  "cycle cfg ch st =
     (case latestBlockNumber ch of
        Inl _ \<Rightarrow> st
      | Inr latest \<Rightarrow>
          (let st0 = ensure_checkpoint cfg latest st
           in case checkpoint st0 of
                None \<Rightarrow> st0
              | Some c \<Rightarrow> fetch_shrinking ch latest c (batchSize cfg) st0))"

text \<open>
  Modelled from the spec: any sequence of cycles (section 8), each with the chain as it
  answers then.
\<close>

definition run :: "config \<Rightarrow> chain list \<Rightarrow> store \<Rightarrow> store" where
  "run cfg chs st = foldl (\<lambda>s ch. cycle cfg ch s) st chs"

text \<open>
  Modelled from the spec: "never decreases" (section 8) as an order of checkpoints, a
  missing one below all.
\<close>

fun checkpoint_le :: "block option \<Rightarrow> block option \<Rightarrow> bool" where
  "checkpoint_le None _ = True"
| "checkpoint_le (Some a) (Some b) = (a \<le> b)"
| "checkpoint_le (Some _) None = False"

subsection \<open>Liquidity mining\<close>

text \<open>
  Modelled from the spec: the pool's reward rate and one account's stake in that pool
  (section 3); the state projector's sources are missing.
\<close>

record stake =
  rewardRatePerSecond :: nat
  stakedAmount :: nat
  accruedReward :: nat
  lastUpdateTimestamp :: nat

text \<open>
  Modelled from the spec: the liquidity-mining events of section 4.4, each with its
  timestamp last.
\<close>

datatype mining_event =
    Stake nat nat
  | Unstake nat nat
  | ClaimReward nat
  | RateUpdated nat nat

text \<open>
  Modelled from the spec: \<open>accruedReward += stakedAmount * rewardRatePerSecond *
  elapsedSeconds\<close> since \<open>lastUpdateTimestamp\<close> (section 4.4).  An event older than the
  last update would break the order of the event log, a data-integrity fault.
\<close>

definition accrue :: "nat \<Rightarrow> stake \<Rightarrow> fault + stake" where
  "accrue t s =
     (if t < lastUpdateTimestamp s then Inl DataIntegrityFault
      else Inr (s\<lparr>accruedReward :=
                    accruedReward s
                      + stakedAmount s * rewardRatePerSecond s * (t - lastUpdateTimestamp s),
                  lastUpdateTimestamp := t\<rparr>))"

text \<open>
  Modelled from the spec: the folding rule of section 4.4.  Every event first accrues at
  the rate in force, then takes effect; an unstake beyond the staked amount is a
  data-integrity fault, and the spec gives a claim of rewards no further effect.
\<close>

fun apply_mining :: "stake \<Rightarrow> mining_event \<Rightarrow> fault + stake" where
  "apply_mining s (Stake amount t) =
     (case accrue t s of Inl f \<Rightarrow> Inl f
      | Inr s' \<Rightarrow> Inr (s'\<lparr>stakedAmount := stakedAmount s' + amount\<rparr>))"
| "apply_mining s (Unstake amount t) =
     (case accrue t s of Inl f \<Rightarrow> Inl f
      | Inr s' \<Rightarrow>
          if stakedAmount s' < amount then Inl DataIntegrityFault
          else Inr (s'\<lparr>stakedAmount := stakedAmount s' - amount\<rparr>))"
| "apply_mining s (ClaimReward t) = accrue t s"
| "apply_mining s (RateUpdated rate t) =
     (case accrue t s of Inl f \<Rightarrow> Inl f
      | Inr s' \<Rightarrow> Inr (s'\<lparr>rewardRatePerSecond := rate\<rparr>))"

text \<open>
  Modelled from the spec: the projection is a fold over the ordered events (section
  4.4), stopping at the first fault.
\<close>

fun projectStake :: "stake \<Rightarrow> mining_event list \<Rightarrow> fault + stake" where
  "projectStake s [] = Inr s"
| "projectStake s (e # es) =
     (case apply_mining s e of Inl f \<Rightarrow> Inl f | Inr s' \<Rightarrow> projectStake s' es)"

text \<open>Modelled from the spec: a stake before any event.\<close>

definition empty_stake :: stake where
  "empty_stake =
     \<lparr>rewardRatePerSecond = 0, stakedAmount = 0, accruedReward = 0, lastUpdateTimestamp = 0\<rparr>"

text \<open>
  The sum of the property "reward accrual split" (section 8): from time \<open>t\<close> at rate
  \<open>r\<close>, over the sub-intervals that the rate updates \<open>(rate, time)\<close> delimit, up to time
  \<open>T\<close>, for a staked amount \<open>a\<close>.
\<close>

fun interval_sum :: "nat \<Rightarrow> nat \<Rightarrow> nat \<Rightarrow> (nat \<times> nat) list \<Rightarrow> nat \<Rightarrow> nat" where
  "interval_sum a r t [] T = a * r * (T - t)"
| "interval_sum a r t ((r', t') # us) T = a * r * (t' - t) + interval_sum a r' t' us T"

text \<open>The update times do not go back, from \<open>t\<close> up to \<open>T\<close>.\<close>

fun ascending :: "nat \<Rightarrow> (nat \<times> nat) list \<Rightarrow> nat \<Rightarrow> bool" where
  "ascending t [] T = (t \<le> T)"
| "ascending t ((r', t') # us) T = (t \<le> t' \<and> ascending t' us T)"

section \<open>Concrete inputs\<close>

text \<open>A market for which the back end reports 250 USD of supply, 100 tokens at 2 USD.\<close>

definition market_reported :: market where
  "market_reported =
     \<lparr>price = Defined (Fin 2), priceUsd = Undefined,
      totalSupplyUsd = Defined (Fin 250), total_supply_usd = Undefined,
      totalSupply = Defined (Fin 100), totalSupplyUnderlying = Undefined\<rparr>"

text \<open>The same market without the reported USD value.\<close>

definition market_plain :: market where
  "market_plain =
     \<lparr>price = Defined (Fin 2), priceUsd = Undefined,
      totalSupplyUsd = Undefined, total_supply_usd = Null,
      totalSupply = Undefined, totalSupplyUnderlying = Defined (Fin 100)\<rparr>"

text \<open>
  The spec's account: 1000 of market A supplied (price 1, collateral factor 0.5) and 400
  of market B borrowed (price 1).  The sums give a borrow limit of 500.
\<close>

definition position_a :: position where
  "position_a =
     \<lparr>price = Defined (Fin 1), priceUsd = Undefined,
      supplyUnderlying = Defined (Fin 1000), supply_underlying = Undefined,
      borrowBalance = Defined (Fin 0), borrow_balance = Undefined,
      collateralFactor = Defined (Fin (1 / 2))\<rparr>"

definition position_b :: position where
  "position_b =
     \<lparr>price = Undefined, priceUsd = Defined (Fin 1),
      supplyUnderlying = Undefined, supply_underlying = Undefined,
      borrowBalance = Undefined, borrow_balance = Defined (Fin 400),
      collateralFactor = Defined (Fin (1 / 2))\<rparr>"

text \<open>The back end reports a liquidity of 50 for it, or none.\<close>

definition account_liquid :: account_response where
  "account_liquid =
     \<lparr>positions = Defined [position_a, position_b],
      liquidityUsd = JNumber (Fin 50), liquidity = JUndefined\<rparr>"

definition account_theoretical :: account_response where
  "account_theoretical =
     \<lparr>positions = Defined [position_a, position_b],
      liquidityUsd = JNull, liquidity = JNumber (Fin 0)\<rparr>"

text \<open>An account that borrowed 0.1 at price 1, with a reported liquidity of 0.2.\<close>

definition account_tenths :: account_response where
  "account_tenths =
     \<lparr>positions = Defined
        [\<lparr>price = Defined (Fin 1), priceUsd = Undefined,
          supplyUnderlying = Defined (Fin 1), supply_underlying = Undefined,
          borrowBalance = Defined (round64 (1 / 10)), borrow_balance = Undefined,
          collateralFactor = Defined (Fin (1 / 2))\<rparr>],
      liquidityUsd = JNumber (round64 (2 / 10)), liquidity = JUndefined\<rparr>"

text \<open>A position of 300 supplied and 100 borrowed whose price is missing.\<close>

definition position_unpriced :: position where
  "position_unpriced =
     \<lparr>price = Undefined, priceUsd = Null,
      supplyUnderlying = Defined (Fin 300), supply_underlying = Undefined,
      borrowBalance = Defined (Fin 100), borrow_balance = Undefined,
      collateralFactor = Defined (Fin (1 / 2))\<rparr>"

definition account_unpriced :: account_response where
  "account_unpriced =
     \<lparr>positions = Defined [position_unpriced], liquidityUsd = JUndefined,
      liquidity = JUndefined\<rparr>"

text \<open>
  A store indexed up to block 100, two events of later blocks, and a chain at block 150
  that answers with them and with a log of unknown signature, or does not answer.
\<close>

definition event_mint :: event where
  "event_mint =
     \<lparr>contractAddress = ''0xmarket'', eventName = ''Mint'', blockNumber = 101,
      transactionHash = ''0xaa'', logIndex = 0, decodedArgs = [(''amount'', ''1000'')],
      timestamp = 1700000000\<rparr>"

definition event_borrow :: event where
  "event_borrow =
     \<lparr>contractAddress = ''0xmarket'', eventName = ''Borrow'', blockNumber = 120,
      transactionHash = ''0xbb'', logIndex = 3, decodedArgs = [(''amount'', ''400'')],
      timestamp = 1700000228\<rparr>"

definition store_new :: store where
  "store_new = \<lparr>events = [], checkpoint = None\<rparr>"

definition store_100 :: store where
  "store_100 = \<lparr>events = [], checkpoint = Some 100\<rparr>"

definition store_150 :: store where
  "store_150 = \<lparr>events = [event_mint, event_borrow], checkpoint = Some 150\<rparr>"

definition chain_up :: chain where
  "chain_up =
     \<lparr>latestBlockNumber = Inr 150,
      getLogs = (\<lambda>a b. Inr [Some event_mint, None, Some event_borrow])\<rparr>"

definition chain_down :: chain where
  "chain_down =
     \<lparr>latestBlockNumber = Inl RpcUnavailable, getLogs = (\<lambda>a b. Inl RpcUnavailable)\<rparr>"

text \<open>A chain at block 150 that rejects a range of more than 25 blocks.\<close>

definition chain_narrow :: chain where
  "chain_narrow =
     \<lparr>latestBlockNumber = Inr 150,
      getLogs = (\<lambda>a b. if a + 24 < b then Inl RangeTooLarge else Inr [Some event_mint])\<rparr>"

text \<open>A stake of 100 at rate 3 since second 1000.\<close>

definition stake_100 :: stake where
  "stake_100 =
     \<lparr>rewardRatePerSecond = 3, stakedAmount = 100, accruedReward = 0,
      lastUpdateTimestamp = 1000\<rparr>"

section \<open>Market supply in USD\<close>

text \<open>
  C4, as stated, fails: for a market whose response carries \<^verbatim>\<open>totalSupplyUsd\<close>,
  \<^verbatim>\<open>getMarketSupplyUsd\<close> returns that number (250), not supply times price (200).
\<close>

theorem getMarketSupplyUsd_not_product:
  "getMarketSupplyUsd market_reported = Fin 250 \<and>
   num_mul (nullish_or (nullish (totalSupply market_reported)
              (totalSupplyUnderlying market_reported)) (Fin 0))
     (getPrice market_reported) = Fin 200 \<and>
   getMarketSupplyUsd market_reported \<noteq>
     num_mul (nullish_or (nullish (totalSupply market_reported)
                (totalSupplyUnderlying market_reported)) (Fin 0))
       (getPrice market_reported)"
  by code_simp

text \<open>
  C4 (amended): \<^verbatim>\<open>getMarketSupplyUsd\<close> returns the USD value the back end reports
  (\<^verbatim>\<open>totalSupplyUsd\<close>, else \<^verbatim>\<open>total_supply_usd\<close>) whenever that is a finite number; in
  every other case it returns the total supply (\<^verbatim>\<open>totalSupply\<close>, else
  \<^verbatim>\<open>totalSupplyUnderlying\<close>, else 0) times the price (\<^verbatim>\<open>price\<close>, else \<^verbatim>\<open>priceUsd\<close>,
  else 0).
\<close>

theorem getMarketSupplyUsd_cases:
  "(nullish (totalSupplyUsd m) (total_supply_usd m) = Defined usd \<and> isFinite usd
      \<longrightarrow> getMarketSupplyUsd m = usd) \<and>
   ((\<forall>u. nullish (totalSupplyUsd m) (total_supply_usd m) = Defined u \<longrightarrow> \<not> isFinite u)
      \<longrightarrow> getMarketSupplyUsd m =
            num_mul (nullish_or (nullish (totalSupply m) (totalSupplyUnderlying m)) (Fin 0))
              (nullish_or (nullish (price m) (priceUsd m)) (Fin 0)))"
  by (auto simp: getMarketSupplyUsd_def getPrice_def split: nullable.splits)

text \<open>Both cases at concrete markets: the reported 250, and 100 tokens at 2 USD.\<close>

theorem getMarketSupplyUsd_cases_witness:
  "getMarketSupplyUsd market_reported = Fin 250 \<and>
   getMarketSupplyUsd market_plain = num_mul (Fin 100) (Fin 2) \<and>
   num_mul (Fin 100) (Fin 2) = Fin 200"
proof -
  have "round64 (100 * 2) = Fin 200"
    by code_simp
  then show ?thesis
    using getMarketSupplyUsd_cases [of market_reported "Fin 250"]
      getMarketSupplyUsd_cases [of market_plain]
    by (simp add: market_reported_def market_plain_def isFinite_def)
qed

section \<open>Rounding and printing\<close>

text \<open>
  The model on well-known binary64 values: the literal \<^verbatim>\<open>0.1\<close>;
  \<^verbatim>\<open>0.1 + 0.2 = 0.30000000000000004\<close>; \<^verbatim>\<open>(1.005).toFixed(2) = "1.00"\<close>;
  \<^verbatim>\<open>(0.285 * 100).toFixed(2) = "28.50"\<close>; \<^verbatim>\<open>(1e21).toFixed(2) = "1e+21"\<close> and
  \<^verbatim>\<open>(1.23456789e23).toFixed(2) = "1.23456789e+23"\<close>.
\<close>

lemma binary64_examples:
  "round64 (1 / 10) = Fin (3602879701896397 / 36028797018963968)"
  "num_add (round64 (1 / 10)) (round64 (2 / 10)) = Fin (1351079888211149 / 4503599627370496)"
  "toFixed 2 (round64 (1005 / 1000)) = ''1.00''"
  "toFixed 2 (num_mul (round64 (285 / 1000)) (Fin 100)) = ''28.50''"
  "toFixed 2 (Fin (10 ^ 21)) = ''1e+21''"
  "toFixed 2 (round64 (123456789 * 10 ^ 15)) = ''1.23456789e+23''"
  by code_simp+

lemma round64_0: "round64 0 = Fin 0"
  by (simp add: round64_def)

lemma pow2_pos: "0 < pow2 e"
  by (simp add: pow2_def)

lemma round_half_even_nonneg: "0 \<le> x \<Longrightarrow> 0 \<le> round_half_even x"
  by (simp add: round_half_even_def Let_def)

lemma round64_nonneg:
  assumes "0 \<le> x" "round64 x = Fin q"
  shows "0 \<le> q"
proof (cases "x = 0")
  case True
  with assms show ?thesis
    by (simp add: round64_0)
next
  case False
  with assms(1) have "0 < x"
    by simp
  have "0 \<le> of_int (round_half_even (\<bar>x\<bar> / pow2 e)) * pow2 e" for e
    using round_half_even_nonneg [of "\<bar>x\<bar> / pow2 e"] pow2_pos [of e]
    by (simp add: less_imp_le)
  with assms(2) \<open>0 < x\<close> False show ?thesis
    by (auto simp: round64_def Let_def split: if_splits)
qed

lemma decimal_pos: "0 < n \<Longrightarrow> decimal n = decimal (n div 10) @ [digit_char (n mod 10)]"
  by (subst decimal.simps) simp

lemma decimal_nonpos: "n \<le> 0 \<Longrightarrow> decimal n = []"
  by (subst decimal.simps) simp

lemma decimal_one_digit: "0 < n \<Longrightarrow> n < 10 \<Longrightarrow> decimal n = [digit_char n]"
  by (simp add: decimal_pos decimal_nonpos)

lemma decimal_two_digits:
  assumes "10 \<le> n" "n < 100"
  shows "decimal n = [digit_char (n div 10), digit_char (n mod 10)]"
proof -
  have "0 < n div 10" "n div 10 < 10"
    using assms by auto
  then show ?thesis
    using assms by (simp add: decimal_pos [of n] decimal_one_digit)
qed

lemma decimal_more_digits:
  assumes "100 \<le> n"
  shows "decimal n = decimal (n div 100) @ [digit_char (n div 10 mod 10), digit_char (n mod 10)]"
    and "decimal (n div 100) \<noteq> []"
proof -
  have a: "0 < n" "0 < n div 10" "0 < n div 100"
    using assms by auto
  have b: "n div 10 div 10 = n div 100"
    by (simp add: zdiv_zmult2_eq)
  show "decimal n = decimal (n div 100) @ [digit_char (n div 10 mod 10), digit_char (n mod 10)]"
    using a by (simp add: decimal_pos [of n] decimal_pos [of "n div 10"] b)
  show "decimal (n div 100) \<noteq> []"
    using a(3) by (simp add: decimal_pos [of "n div 100"])
qed

lemma digit_char_0: "digit_char 0 = CHR ''0''"
  by (simp add: digit_char_def)

text \<open>The padding and splitting of \<^verbatim>\<open>toFixed(2)\<close>, by the number of digits of \<open>n\<close>.\<close>

lemma toFixed_2_hundredths:
  assumes "0 \<le> n"
  shows "(let m = (if n = 0 then ''0'' else decimal n);
              m' = (if (2::nat) \<noteq> 0 \<and> length m \<le> 2
                    then replicate (2 + 1 - length m) (CHR ''0'') @ m else m)
          in take (length m' - 2) m' @ ''.'' @ drop (length m' - 2) m') =
         whole_part (n div 100) @ ''.'' @ [digit_char (n div 10 mod 10), digit_char (n mod 10)]"
proof -
  consider "n = 0" | "0 < n" "n < 10" | "10 \<le> n" "n < 100" | "100 \<le> n"
    using assms by linarith
  then show ?thesis
  proof cases
    case 1
    then show ?thesis
      by (simp add: whole_part_def digit_char_0)
  next
    case 2
    then show ?thesis
      by (simp add: whole_part_def digit_char_0 decimal_one_digit numeral_2_eq_2)
  next
    case 3
    then show ?thesis
      by (simp add: whole_part_def digit_char_0 decimal_two_digits)
  next
    case 4
    then have "n \<noteq> 0" "n div 100 \<noteq> 0"
      by auto
    then show ?thesis
      using decimal_more_digits [OF 4]
      by (simp add: whole_part_def Let_def)
  qed
qed

text \<open>Below \<open>10^21\<close> in magnitude, \<^verbatim>\<open>toFixed(2)\<close> prints two decimal places.\<close>

lemma toFixed_two_decimals:
  assumes "\<bar>r\<bar> < 10 ^ 21"
  shows "toFixed 2 (Fin r) = two_decimals r"
proof -
  have "0 \<le> \<lfloor>\<bar>r\<bar> * 100 + 1 / 2\<rfloor>"
    by simp
  from toFixed_2_hundredths [OF this] show ?thesis
    using assms by (simp add: toFixed_def two_decimals_def Let_def)
qed

lemma two_decimals_0: "two_decimals 0 = ''0.00''"
  by code_simp

section \<open>formatTvl\<close>

text \<open>
  C9, as stated, fails: \<^verbatim>\<open>formatTvl(1e27)\<close> is finite and non-negative, the quotient by
  \<^verbatim>\<open>1e6\<close> is \<open>10^21\<close>, and \<^verbatim>\<open>toFixed\<close> prints it in exponent notation, so the result
  is \<^verbatim>\<open>$1e+21M\<close> and not the quotient with two decimal places.
\<close>

theorem formatTvl_exponent_notation:
  "num_div (round64 (10 ^ 27)) (Fin 1000000) = Fin (10 ^ 21) \<and>
   formatTvl (round64 (10 ^ 27)) = ''$1e+21M'' \<and>
   ''$1e+21M'' \<noteq> ''$'' @ two_decimals (10 ^ 21) @ ''M''"
  by code_simp

text \<open>
  C9 (amended): \<^verbatim>\<open>formatTvl\<close> returns \<^verbatim>\<open>$0.00M\<close> for every input that is not a finite
  number or is negative; for every finite non-negative input whose quotient by \<^verbatim>\<open>1e6\<close>
  is below \<open>10^21\<close> it returns that quotient with two decimal places between \<^verbatim>\<open>$\<close> and
  \<^verbatim>\<open>M\<close>.
\<close>

theorem formatTvl_cases:
  "(\<not> isFinite usd \<or> num_lt usd (Fin 0) \<longrightarrow> formatTvl usd = ''$0.00M'') \<and>
   (0 \<le> r \<and> num_div (Fin r) (Fin 1000000) = Fin q \<and> q < 10 ^ 21
      \<longrightarrow> formatTvl (Fin r) = ''$'' @ two_decimals q @ ''M'')"
proof -
  have "formatTvl (Fin r) = ''$'' @ two_decimals q @ ''M''"
    if "0 \<le> r" "num_div (Fin r) (Fin 1000000) = Fin q" "q < 10 ^ 21"
  proof -
    from that(2) have "round64 (r / 1000000) = Fin q"
      by simp
    with that(1) have "0 \<le> q"
      using round64_nonneg [of "r / 1000000" q] by simp
    with that(3) have "\<bar>q\<bar> < 10 ^ 21"
      by simp
    from toFixed_two_decimals [OF this] that show ?thesis
      by (simp add: formatTvl_def isFinite_def)
  qed
  then show ?thesis
    by (auto simp: formatTvl_def)
qed

text \<open>\<^verbatim>\<open>NaN\<close>, \<^verbatim>\<open>Infinity\<close>, \<^verbatim>\<open>-5\<close>, and the doc comment's 200000000 for $200M.\<close>

theorem formatTvl_cases_witness:
  "formatTvl NaN = ''$0.00M'' \<and> formatTvl PosInf = ''$0.00M'' \<and>
   formatTvl (Fin (- 5)) = ''$0.00M'' \<and> formatTvl (Fin 200000000) = ''$200.00M''"
proof -
  have "num_div (Fin 200000000) (Fin 1000000) = Fin 200" "two_decimals 200 = ''200.00''"
    by code_simp+
  then show ?thesis
    using formatTvl_cases [of NaN 200000000 200] formatTvl_cases [of PosInf]
      formatTvl_cases [of "Fin (- 5)"]
    by (simp add: isFinite_def)
qed

section \<open>formatPct\<close>

text \<open>
  C10, as stated, fails: \<^verbatim>\<open>1e21\<close> is finite and at least 1, and \<^verbatim>\<open>formatPct\<close> returns
  \<^verbatim>\<open>1e+21\<close>, not the value with two decimal places.
\<close>

theorem formatPct_exponent_notation:
  "formatPct (Defined (Fin (10 ^ 21))) = ''1e+21'' \<and> ''1e+21'' \<noteq> two_decimals (10 ^ 21)"
  by code_simp

text \<open>
  C10 (amended): \<^verbatim>\<open>formatPct\<close> returns \<^verbatim>\<open>0.00\<close> for undefined, null and every
  non-finite input; for a finite \<open>v < 1\<close> it returns the product \<open>v * 100\<close> with two
  decimal places, provided the product is below \<open>10^21\<close> in magnitude; for a finite
  \<open>1 \<le> v < 10^21\<close> it returns \<open>v\<close> itself with two decimal places.
\<close>

theorem formatPct_cases:
  "formatPct Undefined = ''0.00'' \<and> formatPct Null = ''0.00'' \<and>
   (\<not> isFinite v \<longrightarrow> formatPct (Defined v) = ''0.00'') \<and>
   (r < 1 \<and> num_mul (Fin r) (Fin 100) = Fin p \<and> \<bar>p\<bar> < 10 ^ 21
      \<longrightarrow> formatPct (Defined (Fin r)) = two_decimals p) \<and>
   (1 \<le> t \<and> t < 10 ^ 21 \<longrightarrow> formatPct (Defined (Fin t)) = two_decimals t)"
proof -
  have "toFixed 2 (Fin 0) = ''0.00''"
    using toFixed_two_decimals [of 0] by (simp add: two_decimals_0)
  then have a: "formatPct Undefined = ''0.00''" "formatPct Null = ''0.00''"
    by (simp_all add: formatPct_def isFinite_def round64_0)
  have b: "\<not> isFinite v \<longrightarrow> formatPct (Defined v) = ''0.00''"
    by (simp add: formatPct_def)
  have c: "r < 1 \<and> num_mul (Fin r) (Fin 100) = Fin p \<and> \<bar>p\<bar> < 10 ^ 21
      \<longrightarrow> formatPct (Defined (Fin r)) = two_decimals p"
    using toFixed_two_decimals [of p] by (auto simp: formatPct_def isFinite_def)
  have d: "1 \<le> t \<and> t < 10 ^ 21 \<longrightarrow> formatPct (Defined (Fin t)) = two_decimals t"
    using toFixed_two_decimals [of t] by (auto simp: formatPct_def isFinite_def)
  from a b c d show ?thesis
    by blast
qed

text \<open>
  The claim's examples: 0.5 is printed as 50.00 and 1.5 as 1.50; on the two sides of 1,
  0.99 is printed as 99.00 and 1 as 1.00.
\<close>

theorem formatPct_cases_witness:
  "formatPct (Defined PosInf) = ''0.00'' \<and> formatPct (Defined NaN) = ''0.00'' \<and>
   formatPct (Defined (Fin (1 / 2))) = ''50.00'' \<and>
   formatPct (Defined (Fin (3 / 2))) = ''1.50'' \<and>
   formatPct (Defined (round64 (99 / 100))) = ''99.00'' \<and>
   formatPct (Defined (Fin 1)) = ''1.00''"
proof -
  have e: "num_mul (Fin (1 / 2)) (Fin 100) = Fin 50" "two_decimals 50 = ''50.00''"
    "two_decimals (3 / 2) = ''1.50''" "two_decimals 1 = ''1.00''"
    "round64 (99 / 100) = Fin (4458563631096791 / 4503599627370496)"
    "num_mul (Fin (4458563631096791 / 4503599627370496)) (Fin 100) = Fin 99"
    "two_decimals 99 = ''99.00''"
    by code_simp+
  then show ?thesis
    using formatPct_cases [of PosInf "1 / 2" 50 "3 / 2"]
      formatPct_cases [of NaN "4458563631096791 / 4503599627370496" 99 1]
    by (simp add: isFinite_def)
qed

section \<open>getAccount\<close>

lemma normalize_fields:
  "supplyUnderlying (normalize p) = Defined (supply_of p)"
  "borrowBalance (normalize p) = Defined (borrow_of p)"
  "pos_price (normalize p) = pos_price p"
  "collateralFactor (normalize p) = collateralFactor p"
  by (simp_all add: normalize_def supply_of_def borrow_of_def pos_price_def)

lemma foldl_normalize:
  "foldl (\<lambda>s p. num_add s (f p)) z (map normalize ps) =
   foldl (\<lambda>s p. num_add s (f (normalize p))) z ps"
  by (induction ps arbitrary: z) simp_all

lemma getAccount_totalSupplied:
  "totalSupplied (getAccount data) = sum_totalSuppliedUsd (sent_positions data)"
  by (simp add: getAccount_def Let_def sum_totalSuppliedUsd_def position_sum_def
      sent_positions_def foldl_normalize normalize_fields)

lemma getAccount_totalBorrowed:
  "totalBorrowed (getAccount data) = sum_totalBorrowedUsd (sent_positions data)"
  by (simp add: getAccount_def Let_def sum_totalBorrowedUsd_def position_sum_def
      sent_positions_def foldl_normalize normalize_fields)

lemma getAccount_borrowLimit:
  "borrowLimit (getAccount data) =
     (if positive_number (reported_liquidity data)
      then num_add (totalBorrowed (getAccount data)) (number_of (reported_liquidity data))
      else sum_borrowLimit (sent_positions data))"
  by (simp add: getAccount_def Let_def sum_borrowLimit_def position_sum_def
      sent_positions_def foldl_normalize normalize_fields reported_liquidity_def factor_of_def)

lemma getAccount_availableToBorrow:
  "availableToBorrow (getAccount data) =
     (if positive_number (reported_liquidity data) then number_of (reported_liquidity data)
      else Math_max (Fin 0)
             (num_sub (borrowLimit (getAccount data)) (totalBorrowed (getAccount data))))"
  by (simp add: getAccount_def Let_def reported_liquidity_def)

text \<open>The figures of the account of markets A and B, with and without a reported liquidity.\<close>

lemma figures_account_liquid:
  "figures (getAccount account_liquid) = (Fin 1000, Fin 400, Fin 450, Fin 50)"
  by code_simp

lemma figures_account_theoretical:
  "figures (getAccount account_theoretical) = (Fin 1000, Fin 400, Fin 500, Fin 100)"
  by code_simp

lemma liquidity_account_liquid:
  "positive_number (reported_liquidity account_liquid)"
  "number_of (reported_liquidity account_liquid) = Fin 50"
  "sent_positions account_liquid = [position_a, position_b]"
  by (simp_all add: account_liquid_def reported_liquidity_def positive_number_def num_gt_def
      number_of_def sent_positions_def)

lemma liquidity_account_theoretical:
  "\<not> positive_number (reported_liquidity account_theoretical)"
  "sent_positions account_theoretical = [position_a, position_b]"
  by (simp_all add: account_theoretical_def reported_liquidity_def positive_number_def
      num_gt_def sent_positions_def)

lemma sums_a_b:
  "sum_borrowLimit [position_a, position_b] = Fin 500"
  "sum_totalBorrowedUsd [position_a, position_b] = Fin 400"
  by code_simp+

text \<open>
  Adding a liquidity to a total and subtracting the total again returns the liquidity
  when the sum is computed without rounding.
\<close>

lemma exact_sum_difference:
  assumes "0 < l" "round64 l = Fin l" "round64 (t + l) = Fin (t + l)"
  shows "Math_max (Fin 0) (num_sub (num_add (Fin t) (Fin l)) (Fin t)) = Fin l"
proof -
  have "num_sub (num_add (Fin t) (Fin l)) (Fin t) = Fin l"
    using assms(2,3) by (simp add: num_sub_def num_neg_def)
  with assms(1) show ?thesis
    by (simp add: Math_max_def)
qed

subsection \<open>Available to borrow\<close>

text \<open>
  C1, as stated, fails in the branch of a positive reported liquidity: with 0.1 borrowed
  and a liquidity of 0.2 the response carries \<open>availableToBorrow = 0.2\<close> and
  \<open>borrowLimit = 0.1 + 0.2 = 0.30000000000000004\<close>, and
  \<open>max(0, borrowLimit - totalBorrowed)\<close> is \<open>0.20000000000000004\<close>.
\<close>

theorem availableToBorrow_not_difference:
  "availableToBorrow (getAccount account_tenths) = round64 (2 / 10) \<and>
   Math_max (Fin 0) (num_sub (borrowLimit (getAccount account_tenths))
      (totalBorrowed (getAccount account_tenths))) =
     Fin (7205759403792795 / 36028797018963968) \<and>
   round64 (2 / 10) \<noteq> Fin (7205759403792795 / 36028797018963968)"
  by code_simp

text \<open>
  C1 (amended): in the fallback branch the returned \<^verbatim>\<open>availableToBorrow\<close> equals
  \<open>max(0, borrowLimit - totalBorrowed)\<close> of the same response.  When the reported
  liquidity (\<^verbatim>\<open>liquidityUsd\<close>, else \<^verbatim>\<open>liquidity\<close>) is a positive number,
  \<^verbatim>\<open>availableToBorrow\<close> is that liquidity itself and \<^verbatim>\<open>borrowLimit\<close> is
  \<^verbatim>\<open>totalBorrowed\<close> plus that liquidity; it then equals
  \<open>max(0, borrowLimit - totalBorrowed)\<close> whenever that sum is computed without rounding.
\<close>

theorem availableToBorrow_cases:
  "(\<not> positive_number (reported_liquidity data) \<longrightarrow>
      availableToBorrow (getAccount data) =
        Math_max (Fin 0)
          (num_sub (borrowLimit (getAccount data)) (totalBorrowed (getAccount data)))) \<and>
   (positive_number (reported_liquidity data) \<longrightarrow>
      availableToBorrow (getAccount data) = number_of (reported_liquidity data) \<and>
      borrowLimit (getAccount data) =
        num_add (totalBorrowed (getAccount data)) (number_of (reported_liquidity data))) \<and>
   (positive_number (reported_liquidity data) \<and>
    totalBorrowed (getAccount data) = Fin t \<and> number_of (reported_liquidity data) = Fin l \<and>
    round64 l = Fin l \<and> round64 (t + l) = Fin (t + l) \<longrightarrow>
      availableToBorrow (getAccount data) =
        Math_max (Fin 0)
          (num_sub (borrowLimit (getAccount data)) (totalBorrowed (getAccount data))))"
proof -
  have "availableToBorrow (getAccount data) =
      Math_max (Fin 0) (num_sub (borrowLimit (getAccount data)) (totalBorrowed (getAccount data)))"
    if pos: "positive_number (reported_liquidity data)"
      and t: "totalBorrowed (getAccount data) = Fin t"
      and l: "number_of (reported_liquidity data) = Fin l"
      and exact: "round64 l = Fin l" "round64 (t + l) = Fin (t + l)"
  proof -
    from pos l have "0 < l"
      by (auto simp: positive_number_def number_of_def num_gt_def split: jsval.splits)
    from exact_sum_difference [OF this exact] pos t l show ?thesis
      by (simp add: getAccount_availableToBorrow getAccount_borrowLimit)
  qed
  then show ?thesis
    by (simp add: getAccount_availableToBorrow getAccount_borrowLimit)
qed

text \<open>
  With no liquidity reported, \<open>max(0, 500 - 400) = 100\<close> is available.  With a
  liquidity of 50 reported, 50 is available and the limit is \<open>400 + 50\<close>, a sum
  without rounding, so that \<open>max(0, 450 - 400)\<close> is 50 as well.
\<close>

theorem availableToBorrow_cases_witness:
  "availableToBorrow (getAccount account_theoretical) =
     Math_max (Fin 0) (num_sub (Fin 500) (Fin 400)) \<and>
   Math_max (Fin 0) (num_sub (Fin 500) (Fin 400)) = Fin 100 \<and>
   availableToBorrow (getAccount account_liquid) = Fin 50 \<and>
   borrowLimit (getAccount account_liquid) = Fin 450 \<and>
   Math_max (Fin 0) (num_sub (Fin 450) (Fin 400)) = Fin 50"
proof -
  have "Math_max (Fin 0) (num_sub (Fin 500) (Fin 400)) = Fin 100"
    "Math_max (Fin 0) (num_sub (Fin 450) (Fin 400)) = Fin 50"
    "round64 50 = Fin 50" "round64 (400 + 50) = Fin (400 + 50)"
    by code_simp+
  then show ?thesis
    using availableToBorrow_cases [of account_theoretical]
      availableToBorrow_cases [of account_liquid 400 50]
      figures_account_liquid figures_account_theoretical
      liquidity_account_liquid liquidity_account_theoretical
    by (simp add: figures_def)
qed

subsection \<open>Borrow limit and total borrowed\<close>

text \<open>
  C2, as stated, fails: for the account of markets A and B with a reported liquidity of
  50 the returned borrow limit is \<open>400 + 50 = 450\<close>, while the sum over its positions
  of supply times price times collateral factor is 500.
\<close>

theorem borrowLimit_not_sum:
  "borrowLimit (getAccount account_liquid) = Fin 450 \<and>
   sum_borrowLimit (sent_positions account_liquid) = Fin 500 \<and>
   borrowLimit (getAccount account_liquid) \<noteq> sum_borrowLimit (sent_positions account_liquid)"
  by code_simp

text \<open>
  C2 (amended): for every account the total borrowed USD equals the sum over the
  account's positions of borrow balance times price, whatever liquidity is reported;
  the borrow limit equals the sum over the positions of supply times price times
  collateral factor when the reported liquidity is not a positive number, and equals
  the total borrowed USD plus the reported liquidity when it is.  A missing balance,
  price or factor counts as 0, and \<^verbatim>\<open>price\<close> is read before \<^verbatim>\<open>priceUsd\<close>.
\<close>

theorem account_sums:
  "totalBorrowed (getAccount data) = sum_totalBorrowedUsd (sent_positions data) \<and>
   (\<not> positive_number (reported_liquidity data) \<longrightarrow>
      borrowLimit (getAccount data) = sum_borrowLimit (sent_positions data)) \<and>
   (positive_number (reported_liquidity data) \<longrightarrow>
      borrowLimit (getAccount data) =
        num_add (sum_totalBorrowedUsd (sent_positions data))
          (number_of (reported_liquidity data)))"
  by (simp add: getAccount_borrowLimit getAccount_totalBorrowed)

text \<open>The account of markets A and B: 400 borrowed; a limit of 500, or of 400 + 50.\<close>

theorem account_sums_witness:
  "totalBorrowed (getAccount account_theoretical) = Fin 400 \<and>
   borrowLimit (getAccount account_theoretical) = Fin 500 \<and>
   borrowLimit (getAccount account_liquid) = num_add (Fin 400) (Fin 50)"
  using account_sums [of account_theoretical] account_sums [of account_liquid]
    liquidity_account_liquid liquidity_account_theoretical sums_a_b
  by simp

subsection \<open>A missing price\<close>

lemma zero_missing_price_fields:
  "supply_of (zero_missing_price p) = supply_of p"
  "borrow_of (zero_missing_price p) = borrow_of p"
  "factor_of (zero_missing_price p) = factor_of p"
  "pos_price (zero_missing_price p) = pos_price p"
  by (cases "price p"; cases "priceUsd p";
      simp add: zero_missing_price_def supply_of_def borrow_of_def factor_of_def pos_price_def)+

lemma position_sum_map:
  "position_sum f (map g ps) = position_sum (\<lambda>p. f (g p)) ps"
proof -
  have "foldl (\<lambda>s p. num_add s (f p)) z (map g ps) = foldl (\<lambda>s p. num_add s (f (g p))) z ps"
    for z
    by (induction ps arbitrary: z) simp_all
  then show ?thesis
    by (simp add: position_sum_def)
qed

lemma figures_getAccount:
  "figures (getAccount data) =
     (let ps = sent_positions data; liq = reported_liquidity data;
          limit = (if positive_number liq then num_add (sum_totalBorrowedUsd ps) (number_of liq)
                   else sum_borrowLimit ps)
      in (sum_totalSuppliedUsd ps, sum_totalBorrowedUsd ps, limit,
          if positive_number liq then number_of liq
          else Math_max (Fin 0) (num_sub limit (sum_totalBorrowedUsd ps))))"
  by (simp add: figures_def Let_def getAccount_totalSupplied getAccount_totalBorrowed
      getAccount_borrowLimit getAccount_availableToBorrow)

text \<open>
  C3, as stated, fails: for a position whose \<^verbatim>\<open>price\<close> and \<^verbatim>\<open>priceUsd\<close> are both
  missing, \<^verbatim>\<open>getPrice\<close> returns 0, and \<^verbatim>\<open>getAccount\<close> returns a response whose totals
  count the 300 supplied and the 100 borrowed as 0.
\<close>

theorem missing_price_zeroed:
  "price position_unpriced = Undefined \<and> priceUsd position_unpriced = Null \<and>
   getPrice position_unpriced = Fin 0 \<and>
   figures (getAccount account_unpriced) = (Fin 0, Fin 0, Fin 0, Fin 0)"
  by code_simp

text \<open>
  C3 (amended): no accounting function of the front end fails on a missing price.
  \<^verbatim>\<open>getPrice\<close> returns 0 for a position or market with neither \<^verbatim>\<open>price\<close> nor
  \<^verbatim>\<open>priceUsd\<close>, and \<^verbatim>\<open>getAccount\<close> returns the same four figures as for the response in
  which every missing price is an explicit 0.
\<close>

theorem missing_price_counts_as_zero:
  "((\<forall>x. nullish (price p) (priceUsd p) \<noteq> Defined x) \<longrightarrow> getPrice p = Fin 0) \<and>
   figures (getAccount (data\<lparr>positions := Defined (map zero_missing_price (sent_positions data))\<rparr>)) =
     figures (getAccount data)"
proof -
  have "getPrice p = Fin 0" if "\<forall>x. nullish (price p) (priceUsd p) \<noteq> Defined x"
    using that by (cases "nullish (price p) (priceUsd p)") (simp_all add: getPrice_def)
  moreover have "sent_positions (data\<lparr>positions := Defined qs\<rparr>) = qs"
    "reported_liquidity (data\<lparr>positions := Defined qs\<rparr>) = reported_liquidity data" for qs
    by (simp_all add: sent_positions_def reported_liquidity_def)
  ultimately show ?thesis
    by (simp add: figures_getAccount Let_def sum_totalSuppliedUsd_def sum_totalBorrowedUsd_def
        sum_borrowLimit_def position_sum_map zero_missing_price_fields)
qed

text \<open>The position of 300 supplied and 100 borrowed, without a price and at price 0.\<close>

theorem missing_price_counts_as_zero_witness:
  "getPrice position_unpriced = Fin 0 \<and>
   figures (getAccount (account_unpriced
      \<lparr>positions := Defined [position_unpriced\<lparr>price := Defined (Fin 0)\<rparr>]\<rparr>)) =
     figures (getAccount account_unpriced)"
  using missing_price_counts_as_zero [of position_unpriced account_unpriced]
  by (simp add: sent_positions_def account_unpriced_def position_unpriced_def
      zero_missing_price_def)

section \<open>The event store and the indexer loop\<close>

lemma checkpoint_le_refl: "checkpoint_le a a"
  by (cases a) simp_all

lemma checkpoint_le_trans: "checkpoint_le a b \<Longrightarrow> checkpoint_le b c \<Longrightarrow> checkpoint_le a c"
  by (cases a; cases b; cases c) simp_all

lemma insert_events_checkpoint: "checkpoint (insert_events es st) = checkpoint st"
  by (simp add: insert_events_def)

lemma setCheckpoint_result:
  "setCheckpoint v st = Inr st' \<Longrightarrow> st' = st\<lparr>checkpoint := Some v\<rparr>"
  by (auto simp: setCheckpoint_def split: option.splits if_splits)

lemma setCheckpoint_mono:
  "setCheckpoint v st = Inr st' \<Longrightarrow> checkpoint_le (checkpoint st) (checkpoint st')"
  by (auto simp: setCheckpoint_def split: option.splits if_splits)

lemma index_range_mono:
  assumes "index_range ch a b st = Inr st'"
  shows "checkpoint_le (checkpoint st) (checkpoint st')"
proof -
  from assms obtain raw where "setCheckpoint b (insert_events (decoded raw) st) = Inr st'"
    by (auto simp: index_range_def persist_def split: sum.splits)
  from setCheckpoint_mono [OF this] show ?thesis
    by (simp add: insert_events_checkpoint)
qed

lemma fetch_shrinking_mono:
  "checkpoint_le (checkpoint st) (checkpoint (fetch_shrinking ch latest c batch st))"
proof (induction ch latest c batch st rule: fetch_shrinking.induct)
  case (1 ch latest c batch st)
  show ?case
  proof (cases "min latest (c + of_nat batch) \<le> c")
    case True
    then show ?thesis
      by (simp add: fetch_shrinking.simps [of ch latest c batch st] checkpoint_le_refl)
  next
    case False
    show ?thesis
    proof (cases "index_range ch (c + 1) (min latest (c + of_nat batch)) st")
      case (Inr st')
      with False index_range_mono [OF Inr] show ?thesis
        by (simp add: fetch_shrinking.simps [of ch latest c batch st])
    next
      case (Inl f)
      show ?thesis
      proof (cases "f = RangeTooLarge \<and> \<not> batch \<le> 1")
        case True
        with False Inl "1.IH" [of "min latest (c + of_nat batch)" f] show ?thesis
          by (simp add: fetch_shrinking.simps [of ch latest c batch st])
      next
        case no_retry: False
        with False Inl show ?thesis
          by (cases f) (simp_all add: fetch_shrinking.simps [of ch latest c batch st]
              checkpoint_le_refl)
      qed
    qed
  qed
qed

lemma ensure_checkpoint_mono:
  "checkpoint_le (checkpoint st) (checkpoint (ensure_checkpoint cfg latest st))"
  by (cases "checkpoint st") (simp_all add: ensure_checkpoint_def)

lemma cycle_mono: "checkpoint_le (checkpoint st) (checkpoint (cycle cfg ch st))"
proof (cases "latestBlockNumber ch")
  case (Inl f)
  then show ?thesis
    by (simp add: cycle_def checkpoint_le_refl)
next
  case (Inr latest)
  show ?thesis
  proof (cases "checkpoint (ensure_checkpoint cfg latest st)")
    case None
    with Inr ensure_checkpoint_mono [of st cfg latest] show ?thesis
      by (simp add: cycle_def Let_def)
  next
    case (Some c)
    with Inr have "cycle cfg ch st =
        fetch_shrinking ch latest c (batchSize cfg) (ensure_checkpoint cfg latest st)"
      by (simp add: cycle_def Let_def)
    with ensure_checkpoint_mono [of st cfg latest]
      fetch_shrinking_mono [of "ensure_checkpoint cfg latest st" ch latest c "batchSize cfg"]
    show ?thesis
      by (auto intro: checkpoint_le_trans)
  qed
qed

lemma run_mono: "checkpoint_le (checkpoint st) (checkpoint (run cfg chs st))"
proof (induction chs arbitrary: st)
  case Nil
  show ?case
    by (simp add: run_def checkpoint_le_refl)
next
  case (Cons ch chs)
  have "run cfg (ch # chs) st = run cfg chs (cycle cfg ch st)"
    by (simp add: run_def)
  with cycle_mono [of st cfg ch] Cons.IH [of "cycle cfg ch st"] show ?case
    by (auto intro: checkpoint_le_trans)
qed

text \<open>The cycles of the concrete chains, evaluated.\<close>

lemma index_range_chain_up: "index_range chain_up 101 150 store_100 = Inr store_150"
  by (simp add: index_range_def chain_up_def persist_def decoded_def List.map_filter_simps
      insert_events_def insert_event_def store_100_def store_150_def setCheckpoint_def
      event_key_def event_mint_def event_borrow_def)

lemma cycle_chain_up: "cycle default_config chain_up store_100 = store_150"
  by (simp add: cycle_def chain_up_def default_config_def ensure_checkpoint_def store_100_def
      fetch_shrinking.simps index_range_def persist_def decoded_def List.map_filter_simps
      insert_events_def insert_event_def store_150_def setCheckpoint_def
      event_key_def event_mint_def event_borrow_def)

lemma cycle_chain_down: "cycle cfg chain_down st = st"
  by (simp add: cycle_def chain_down_def)

lemma cycle_chain_narrow: "checkpoint (cycle default_config chain_narrow store_100) = Some 115"
  by (simp add: cycle_def chain_narrow_def default_config_def ensure_checkpoint_def store_100_def
      fetch_shrinking.simps index_range_def persist_def decoded_def List.map_filter_simps
      insert_events_def insert_event_def setCheckpoint_def
      event_key_def event_mint_def)

text \<open>
  C5: over any sequence of cycles, whatever the chain answers in each, the checkpoint
  does not decrease; \<^verbatim>\<open>setCheckpoint(v)\<close> fails with \<open>NonMonotonic\<close> when \<open>v\<close> is less than
  the current checkpoint, and otherwise succeeds and stores \<open>v\<close>.
\<close>

theorem checkpoint_never_decreases:
  "checkpoint_le (checkpoint st) (checkpoint (run cfg chs st)) \<and>
   (checkpoint st = Some c \<and> v < c \<longrightarrow> setCheckpoint v st = Inl NonMonotonic) \<and>
   (checkpoint st = Some c \<and> \<not> v < c \<longrightarrow> setCheckpoint v st = Inr (st\<lparr>checkpoint := Some v\<rparr>)) \<and>
   (checkpoint st = None \<longrightarrow> setCheckpoint v st = Inr (st\<lparr>checkpoint := Some v\<rparr>))"
  by (simp add: run_mono setCheckpoint_def)

text \<open>
  A failed cycle, a successful one and a failed one take the checkpoint from 100 to
  150; a chain that rejects wide ranges takes it to 115; \<^verbatim>\<open>setCheckpoint(50)\<close> fails and
  \<^verbatim>\<open>setCheckpoint(120)\<close> stores 120.
\<close>

theorem checkpoint_never_decreases_witness:
  "checkpoint (run default_config [chain_down, chain_up, chain_down] store_100) = Some 150 \<and>
   checkpoint_le (checkpoint store_100) (Some 150) \<and>
   checkpoint (run default_config [chain_narrow] store_100) = Some 115 \<and>
   setCheckpoint 50 store_100 = Inl NonMonotonic \<and>
   setCheckpoint 120 store_100 = Inr (store_100\<lparr>checkpoint := Some 120\<rparr>) \<and>
   setCheckpoint 7 store_new = Inr (store_new\<lparr>checkpoint := Some 7\<rparr>)"
proof -
  have "run default_config [chain_down, chain_up, chain_down] store_100 = store_150"
    by (simp add: run_def cycle_chain_down cycle_chain_up)
  moreover have "run default_config [chain_narrow] store_100 =
      cycle default_config chain_narrow store_100"
    by (simp add: run_def)
  ultimately show ?thesis
    using checkpoint_never_decreases
        [of store_100 default_config "[chain_down, chain_up, chain_down]" 100 50]
      checkpoint_never_decreases [of store_100 default_config "[]" 100 120]
      checkpoint_never_decreases [of store_new default_config "[]" 0 7]
      cycle_chain_narrow
    by (simp add: store_100_def store_150_def store_new_def)
qed

subsection \<open>Idempotent insertion\<close>

lemma insert_event_keys:
  "event_key ` set (insert_event e es) = insert (event_key e) (event_key ` set es)"
  by (auto simp: insert_event_def)

lemma insert_all_keys:
  "event_key ` set (foldl (\<lambda>es e. insert_event e es) es0 new) =
     event_key ` set es0 \<union> event_key ` set new"
  by (induction new arbitrary: es0) (auto simp: insert_event_keys)

lemma insert_all_known:
  "event_key ` set new \<subseteq> event_key ` set es0 \<Longrightarrow>
     foldl (\<lambda>es e. insert_event e es) es0 new = es0"
  by (induction new arbitrary: es0) (auto simp: insert_event_def)

lemma insert_events_known:
  "event_key ` set new \<subseteq> event_key ` set (events st) \<Longrightarrow> insert_events new st = st"
  by (simp add: insert_events_def insert_all_known)

lemma insert_events_twice: "insert_events es (insert_events es st) = insert_events es st"
  by (rule insert_events_known) (simp add: insert_events_def insert_all_keys)

lemma persist_again:
  assumes "persist b es st = Inr st'"
  shows "persist b es st' = Inr st'"
proof -
  from assms have st': "st' = (insert_events es st)\<lparr>checkpoint := Some b\<rparr>"
    by (simp add: persist_def setCheckpoint_result)
  then have "event_key ` set es \<subseteq> event_key ` set (events st')"
    by (simp add: insert_events_def insert_all_keys)
  then have "insert_events es st' = st'"
    by (rule insert_events_known)
  moreover have "setCheckpoint b st' = Inr st'"
    using st' by (simp add: setCheckpoint_def)
  ultimately show ?thesis
    by (simp add: persist_def)
qed

text \<open>
  C6: inserting an event whose \<open>(transactionHash, logIndex)\<close> is stored already changes
  nothing and is no error, inserting a batch twice is inserting it once, and indexing a
  block range that has been indexed yields the same events and the same checkpoint
  again; so does indexing it after a crash between the write and the checkpoint.
\<close>

theorem indexing_idempotent:
  "(event_key e \<in> set (map event_key (events st)) \<longrightarrow> insert_events [e] st = st) \<and>
   insert_events es (insert_events es st) = insert_events es st \<and>
   (index_range ch a b st = Inr st' \<longrightarrow> index_range ch a b st' = Inr st') \<and>
   persist b es (insert_events es st) = persist b es st"
proof -
  have "insert_events [e] st = st" if "event_key e \<in> set (map event_key (events st))"
    using that by (intro insert_events_known) simp
  moreover have "index_range ch a b st' = Inr st'" if "index_range ch a b st = Inr st'"
  proof -
    from that obtain raw where "getLogs ch a b = Inr raw" "persist b (decoded raw) st = Inr st'"
      by (auto simp: index_range_def split: sum.splits)
    with persist_again [of b "decoded raw" st st'] show ?thesis
      by (simp add: index_range_def)
  qed
  ultimately show ?thesis
    by (simp add: insert_events_twice persist_def)
qed

text \<open>
  Blocks 101 to 150 indexed once and indexed again: the same two events and the
  checkpoint 150.
\<close>

theorem indexing_idempotent_witness:
  "insert_events [event_mint] store_150 = store_150 \<and>
   index_range chain_up 101 150 store_100 = Inr store_150 \<and>
   index_range chain_up 101 150 store_150 = Inr store_150"
  using indexing_idempotent [where e = event_mint and st = store_150]
    indexing_idempotent [where st = store_100 and st' = store_150 and ch = chain_up
      and a = 101 and b = 150]
    index_range_chain_up
  by (simp add: store_150_def)

subsection \<open>The first run\<close>

text \<open>
  C7: with no checkpoint, the first run sets it to \<open>latest - initialLookback\<close>, which
  is 0 when the subtraction would go below zero, and the cycle goes on from there; the
  default look-back is 2000 blocks.
\<close>

theorem first_run_checkpoint:
  "(checkpoint st = None \<longrightarrow>
      checkpoint (ensure_checkpoint cfg latest st) =
        Some (initial_checkpoint latest (initialLookback cfg))) \<and>
   (checkpoint st = None \<and> latestBlockNumber ch = Inr latest \<longrightarrow>
      checkpoint_le (Some (initial_checkpoint latest (initialLookback cfg)))
        (checkpoint (cycle cfg ch st))) \<and>
   uint (initial_checkpoint latest lookback) = max 0 (uint latest - uint lookback) \<and>
   initialLookback default_config = 2000"
proof -
  have a: "checkpoint (ensure_checkpoint cfg latest st) =
      Some (initial_checkpoint latest (initialLookback cfg))" if "checkpoint st = None"
    using that by (simp add: ensure_checkpoint_def)
  have b: "checkpoint_le (Some (initial_checkpoint latest (initialLookback cfg)))
      (checkpoint (cycle cfg ch st))"
    if "checkpoint st = None" "latestBlockNumber ch = Inr latest"
    using that a fetch_shrinking_mono [of "ensure_checkpoint cfg latest st" ch latest
        "initial_checkpoint latest (initialLookback cfg)" "batchSize cfg"]
    by (simp add: cycle_def Let_def)
  have c: "uint (initial_checkpoint latest lookback) = max 0 (uint latest - uint lookback)"
    by (simp add: initial_checkpoint_def word_less_def uint_sub_if' max_def)
  from a b c show ?thesis
    by (simp add: default_config_def)
qed

text \<open>At block 5000 the first run starts from 3000, at block 1500 from 0.\<close>

theorem first_run_checkpoint_witness:
  "checkpoint (ensure_checkpoint default_config 5000 store_new) = Some 3000 \<and>
   checkpoint_le (Some 3000) (checkpoint (cycle default_config (chain_up\<lparr>latestBlockNumber := Inr 5000\<rparr>) store_new)) \<and>
   uint (initial_checkpoint 5000 2000) = 3000 \<and>
   checkpoint (ensure_checkpoint default_config 1500 store_new) = Some 0 \<and>
   uint (initial_checkpoint 1500 2000) = 0"
proof -
  have "initial_checkpoint 5000 2000 = 3000" "initial_checkpoint 1500 2000 = 0"
    by (simp_all add: initial_checkpoint_def)
  then show ?thesis
    using first_run_checkpoint [of store_new default_config 5000
        "chain_up\<lparr>latestBlockNumber := Inr 5000\<rparr>" 2000]
      first_run_checkpoint [of store_new default_config 1500 chain_up 2000]
    by (simp add: store_new_def default_config_def)
qed

section \<open>Reward accrual\<close>

lemma accrue_ok:
  "lastUpdateTimestamp s \<le> t \<Longrightarrow>
     accrue t s = Inr (s\<lparr>accruedReward :=
         accruedReward s + stakedAmount s * rewardRatePerSecond s * (t - lastUpdateTimestamp s),
       lastUpdateTimestamp := t\<rparr>)"
  by (simp add: accrue_def)

lemma project_rate_updates:
  "ascending (lastUpdateTimestamp s) us T \<Longrightarrow>
     \<exists>s'. projectStake s (map (\<lambda>(r, t). RateUpdated r t) us @ [ClaimReward T]) = Inr s' \<and>
          accruedReward s' =
            accruedReward s
              + interval_sum (stakedAmount s) (rewardRatePerSecond s) (lastUpdateTimestamp s) us T"
proof (induction us arbitrary: s)
  case Nil
  then show ?case
    by (simp add: accrue_ok)
next
  case (Cons u us)
  obtain r t where u: "u = (r, t)"
    by (cases u)
  let ?s1 = "s\<lparr>accruedReward :=
         accruedReward s + stakedAmount s * rewardRatePerSecond s * (t - lastUpdateTimestamp s),
       lastUpdateTimestamp := t, rewardRatePerSecond := r\<rparr>"
  from Cons.prems u have le: "lastUpdateTimestamp s \<le> t" and asc: "ascending t us T"
    by simp_all
  from asc have "ascending (lastUpdateTimestamp ?s1) us T"
    by simp
  from Cons.IH [OF this] obtain s' where
    "projectStake ?s1 (map (\<lambda>(r, t). RateUpdated r t) us @ [ClaimReward T]) = Inr s'"
    "accruedReward s' = accruedReward ?s1
       + interval_sum (stakedAmount ?s1) (rewardRatePerSecond ?s1) (lastUpdateTimestamp ?s1) us T"
    by blast
  with le u show ?case
    by (simp add: accrue_ok)
qed

text \<open>
  C8: between two changes of the staked amount, the accrued reward grows by the sum,
  over the sub-intervals that the \<open>RateUpdated\<close> events delimit, of staked amount times
  the rate in force times the seconds elapsed.  A stake of 100 at rate \<open>r1\<close> for 10
  seconds and then at rate \<open>r2\<close> for 5 seconds accrues \<open>100*r1*10 + 100*r2*5\<close>, which
  for different rates is neither \<open>100*r2*15\<close> nor \<open>100*r1*15\<close>.
\<close>

theorem reward_accrual_split:
  "(ascending (lastUpdateTimestamp s) us T \<longrightarrow>
      (\<exists>s'. projectStake s (map (\<lambda>(r, t). RateUpdated r t) us @ [ClaimReward T]) = Inr s' \<and>
            accruedReward s' =
              accruedReward s
                + interval_sum (stakedAmount s) (rewardRatePerSecond s)
                    (lastUpdateTimestamp s) us T)) \<and>
   (\<exists>s'. projectStake empty_stake
            [RateUpdated r1 t0, Stake 100 t0, RateUpdated r2 (t0 + 10), ClaimReward (t0 + 15)]
          = Inr s' \<and>
         accruedReward s' = 100 * r1 * 10 + 100 * r2 * 5 \<and>
         (r1 \<noteq> r2 \<longrightarrow> accruedReward s' \<noteq> 100 * r2 * 15 \<and> accruedReward s' \<noteq> 100 * r1 * 15))"
proof -
  have "\<exists>s'. projectStake empty_stake
            [RateUpdated r1 t0, Stake 100 t0, RateUpdated r2 (t0 + 10), ClaimReward (t0 + 15)]
          = Inr s' \<and>
         accruedReward s' = 100 * r1 * 10 + 100 * r2 * 5 \<and>
         (r1 \<noteq> r2 \<longrightarrow> accruedReward s' \<noteq> 100 * r2 * 15 \<and> accruedReward s' \<noteq> 100 * r1 * 15)"
    by (simp add: empty_stake_def accrue_def)
  with project_rate_updates [of s us T] show ?thesis
    by blast
qed

text \<open>
  Rates 3 and 7 from second 1000: \<open>100*3*10 + 100*7*5 = 6500\<close>, neither
  \<open>100*7*15 = 10500\<close> nor \<open>100*3*15 = 4500\<close>.
\<close>

theorem reward_accrual_split_witness:
  "(\<exists>s'. projectStake stake_100 [RateUpdated 7 1010, ClaimReward 1015] = Inr s' \<and>
         accruedReward s' = 0 + interval_sum 100 3 1000 [(7, 1010)] 1015) \<and>
   interval_sum 100 3 1000 [(7, 1010)] 1015 = 6500 \<and>
   (\<exists>s'. projectStake empty_stake
           [RateUpdated 3 1000, Stake 100 1000, RateUpdated 7 1010, ClaimReward 1015] = Inr s' \<and>
         accruedReward s' = 6500 \<and> accruedReward s' \<noteq> 10500 \<and> accruedReward s' \<noteq> 4500)"
  using reward_accrual_split [of stake_100 "[(7, 1010)]" 1015 3 1000 7]
  by (simp add: stake_100_def)

end
